theory Spec2Isabelle
  imports Complex_Main "HOL-Library.Multiset" "HOL-Library.Log_Nat"
begin

section \<open>Python values\<close>

text \<open>
  The trust service of \<^verbatim>\<open>backend/services/trust_service.py\<close> works on untyped data
  (\<^verbatim>\<open>Dict[str, Any]\<close>) that reaches it as parsed JSON. A value is one of Python's
  \<^verbatim>\<open>None\<close>, \<^verbatim>\<open>bool\<close>, \<^verbatim>\<open>int\<close>, \<^verbatim>\<open>float\<close>, \<^verbatim>\<open>str\<close>, \<^verbatim>\<open>list\<close> and \<^verbatim>\<open>dict\<close> with string
  keys. A float is a finite float, given by the rational number it denotes (Python compares
  \<^verbatim>\<open>int\<close> and \<^verbatim>\<open>float\<close> by exact value); NaN and the infinities are not covered. A dict is
  the list of its items in insertion order; the keys of a dict are distinct. A string is
  the list of its characters.
\<close>

datatype pyval =
    PNone
  | PBool bool
  | PInt int
  | PFloat rat
  | PStr string
  | PList "pyval list"
  | PDict "(string \<times> pyval) list"

datatype pyerror = TypeError | ValueError | AttributeError

text \<open>The truth value of an object, as \<^verbatim>\<open>if x\<close> and \<^verbatim>\<open>x and y\<close> take it.\<close>

fun py_truthy :: "pyval \<Rightarrow> bool" where
  "py_truthy PNone = False"
| "py_truthy (PBool b) = b"
| "py_truthy (PInt i) = (i \<noteq> 0)"
| "py_truthy (PFloat r) = (r \<noteq> 0)"
| "py_truthy (PStr s) = (s \<noteq> [])"
| "py_truthy (PList xs) = (xs \<noteq> [])"
| "py_truthy (PDict d) = (d \<noteq> [])"

text \<open>The numeric value of a \<^verbatim>\<open>bool\<close>, \<^verbatim>\<open>int\<close> or \<^verbatim>\<open>float\<close>; \<^verbatim>\<open>True\<close> is 1.\<close>

fun num_of :: "pyval \<Rightarrow> rat option" where
  "num_of (PBool b) = Some (if b then 1 else 0)"
| "num_of (PInt i) = Some (of_int i)"
| "num_of (PFloat r) = Some r"
| "num_of _ = None"

text \<open>
  \<^verbatim>\<open>a == b\<close>: numbers by value, strings and lists by content, dicts by their key sets
  and the values under each key; values of different kinds are unequal.
\<close>

fun py_eq :: "pyval \<Rightarrow> pyval \<Rightarrow> bool" where
  "py_eq PNone b = (b = PNone)"
| "py_eq (PBool x) b = (num_of b = Some (if x then 1 else 0))"
| "py_eq (PInt x) b = (num_of b = Some (of_int x))"
| "py_eq (PFloat x) b = (num_of b = Some x)"
| "py_eq (PStr s) b = (b = PStr s)"
| "py_eq (PList xs) b = (case b of PList ys \<Rightarrow> list_all2 py_eq xs ys | _ \<Rightarrow> False)"
| "py_eq (PDict d) b =
     (case b of
        PDict e \<Rightarrow>
          length d = length e \<and>
          list_all (\<lambda>kv. case map_of e (fst kv) of None \<Rightarrow> False | Some w \<Rightarrow> py_eq (snd kv) w) d
      | _ \<Rightarrow> False)"

text \<open>\<^verbatim>\<open>s <= t\<close> on strings: lexicographic, by code point.\<close>

fun str_le :: "string \<Rightarrow> string \<Rightarrow> bool" where
  "str_le [] t = True"
| "str_le (c # cs) [] = False"
| "str_le (c # cs) (d # ds) = (if c = d then str_le cs ds else (of_char c :: nat) < of_char d)"

text \<open>
  \<^verbatim>\<open>a <= b\<close>: defined between numbers, between strings and between lists (the first pair
  of unequal items decides, else the lengths); every other pair raises \<^verbatim>\<open>TypeError\<close>.
\<close>

fun py_le :: "pyval \<Rightarrow> pyval \<Rightarrow> pyerror + bool"
  and list_le :: "pyval list \<Rightarrow> pyval list \<Rightarrow> pyerror + bool" where
  "py_le (PStr s) b = (case b of PStr t \<Rightarrow> Inr (str_le s t) | _ \<Rightarrow> Inl TypeError)"
| "py_le (PList xs) b = (case b of PList ys \<Rightarrow> list_le xs ys | _ \<Rightarrow> Inl TypeError)"
| "py_le PNone b = Inl TypeError"
| "py_le (PDict d) b = Inl TypeError"
| "py_le (PBool x) b =
     (case num_of b of Some y \<Rightarrow> Inr ((if x then 1 else 0) \<le> y) | None \<Rightarrow> Inl TypeError)"
| "py_le (PInt x) b =
     (case num_of b of Some y \<Rightarrow> Inr (of_int x \<le> y) | None \<Rightarrow> Inl TypeError)"
| "py_le (PFloat x) b =
     (case num_of b of Some y \<Rightarrow> Inr (x \<le> y) | None \<Rightarrow> Inl TypeError)"
| "list_le [] ys = Inr True"
| "list_le (x # xs) [] = Inr False"
| "list_le (x # xs) (y # ys) = (if py_eq x y then list_le xs ys else py_le x y)"

text \<open>\<^verbatim>\<open>t in s\<close> on strings: \<open>t\<close> occurs in \<open>s\<close> as a contiguous piece.\<close>

fun starts_with :: "string \<Rightarrow> string \<Rightarrow> bool" where
  "starts_with s [] = True"
| "starts_with [] (c # t) = False"
| "starts_with (d # s) (c # t) = (c = d \<and> starts_with s t)"

fun is_substr :: "string \<Rightarrow> string \<Rightarrow> bool" where
  "is_substr t [] = (t = [])"
| "is_substr t (c # s) = (starts_with (c # s) t \<or> is_substr t s)"

text \<open>An object that can be a dict key or be looked up in a dict: lists and dicts cannot.\<close>

fun hashable :: "pyval \<Rightarrow> bool" where
  "hashable (PList xs) = False"
| "hashable (PDict d) = False"
| "hashable v = True"

text \<open>
  \<^verbatim>\<open>x in c\<close>: membership by \<^verbatim>\<open>==\<close> in a list, substring test in a string (the left side
  must be a string), key test in a dict (the left side must be hashable); the other objects
  are not containers and raise \<^verbatim>\<open>TypeError\<close>.
\<close>

fun py_in :: "pyval \<Rightarrow> pyval \<Rightarrow> pyerror + bool" where
  "py_in x (PList ys) = Inr (list_ex (\<lambda>y. py_eq y x) ys)"
| "py_in x (PStr s) = (case x of PStr t \<Rightarrow> Inr (is_substr t s) | _ \<Rightarrow> Inl TypeError)"
| "py_in x (PDict d) =
     (if hashable x then Inr (list_ex (\<lambda>kv. py_eq (PStr (fst kv)) x) d) else Inl TypeError)"
| "py_in x c = Inl TypeError"

text \<open>
  \<^verbatim>\<open>str(x)\<close>, as an f-string applies it to the values it holds. Turning an \<^verbatim>\<open>int\<close> of
  more than 4300 decimal digits into text raises \<^verbatim>\<open>ValueError\<close> (the interpreter's limit
  on integer string conversion); the text of a list or a dict contains the text of its
  items. Every other value has a text.
\<close>

function dec_digits :: "nat \<Rightarrow> nat" where
  "dec_digits n = (if n < 10 then 1 else Suc (dec_digits (n div 10)))"
  by pat_completeness auto
termination
  by (relation "measure (\<lambda>n. n)") auto

declare dec_digits.simps [simp del]

fun formattable :: "pyval \<Rightarrow> bool" where
  "formattable (PInt i) = (dec_digits (nat \<bar>i\<bar>) \<le> 4300)"
| "formattable (PList xs) = list_all formattable xs"
| "formattable (PDict d) = list_all (\<lambda>kv. formattable (snd kv)) d"
| "formattable v = True"

text \<open>The formatting of a reason that holds the given values.\<close>

definition format_values :: "pyval list \<Rightarrow> pyerror + unit" where
  "format_values vs = (if list_all formattable vs then Inr () else Inl ValueError)"

section \<open>The resolved attribute set\<close>

text \<open>
  \<^verbatim>\<open>agent_data\<close> is a dict built by \<^verbatim>\<open>_extract_agent_data\<close>. Its keys are hashable
  objects, compared by \<^verbatim>\<open>==\<close>; assigning to a key that is present replaces the value in
  place, assigning to a new key appends an item.
\<close>

type_synonym pydict = "(pyval \<times> pyval) list"

fun dict_get :: "pydict \<Rightarrow> pyval \<Rightarrow> pyval option" where
  "dict_get [] k = None"
| "dict_get ((k', v') # d) k = (if py_eq k' k then Some v' else dict_get d k)"

fun dict_set :: "pydict \<Rightarrow> pyval \<Rightarrow> pyval \<Rightarrow> pydict" where
  "dict_set [] k v = [(k, v)]"
| "dict_set ((k', v') # d) k v = (if py_eq k' k then (k', v) # d else (k', v') # dict_set d k v)"

text \<open>\<^verbatim>\<open>agent_data.get(key, default)\<close> with a string key.\<close>

definition data_get :: "pydict \<Rightarrow> string \<Rightarrow> pyval \<Rightarrow> pyval" where
  "data_get d k dflt = (case dict_get d (PStr k) of Some v \<Rightarrow> v | None \<Rightarrow> dflt)"

text \<open>\<^verbatim>\<open>dict.copy()\<close> of a dict with string keys, as a dict in its own right.\<close>

definition dict_copy :: "(string \<times> pyval) list \<Rightarrow> pydict" where
  "dict_copy kvs = map (\<lambda>kv. (PStr (fst kv), snd kv)) kvs"

text \<open>\<^verbatim>\<open>d.update(m)\<close> for a dict \<open>m\<close>: every item of \<open>m\<close> is assigned, in order.\<close>

definition update_items :: "pydict \<Rightarrow> (string \<times> pyval) list \<Rightarrow> pydict" where
  "update_items d kvs = foldl (\<lambda>acc kv. dict_set acc (PStr (fst kv)) (snd kv)) d kvs"

text \<open>
  \<^verbatim>\<open>d.update(x)\<close> for an object that is not a dict reads \<open>x\<close> as a sequence of key/value
  pairs. Each element must itself be a sequence of length two (a list of two objects, a
  string of two characters, or a dict with two keys, which iterates as its keys), else
  \<^verbatim>\<open>ValueError\<close> (wrong length) or \<^verbatim>\<open>TypeError\<close> (not a sequence); the key must be hashable.
\<close>

fun pair_of_item :: "pyval \<Rightarrow> pyerror + (pyval \<times> pyval)" where
  "pair_of_item (PList [k, v]) = Inr (k, v)"
| "pair_of_item (PList xs) = Inl ValueError"
| "pair_of_item (PStr [a, b]) = Inr (PStr [a], PStr [b])"
| "pair_of_item (PStr s) = Inl ValueError"
| "pair_of_item (PDict [(a, v), (b, w)]) = Inr (PStr a, PStr b)"
| "pair_of_item (PDict d) = Inl ValueError"
| "pair_of_item x = Inl TypeError"

fun update_seq :: "pydict \<Rightarrow> pyval list \<Rightarrow> pyerror + pydict" where
  "update_seq d [] = Inr d"
| "update_seq d (item # items) =
     (case pair_of_item item of
        Inl e \<Rightarrow> Inl e
      | Inr (k, v) \<Rightarrow> if hashable k then update_seq (dict_set d k v) items else Inl TypeError)"

fun dict_update :: "pydict \<Rightarrow> pyval \<Rightarrow> pyerror + pydict" where
  "dict_update d (PDict kvs) = Inr (update_items d kvs)"
| "dict_update d (PList items) = update_seq d items"
| "dict_update d (PStr s) = (if s = [] then Inr d else Inl ValueError)"
| "dict_update d x = Inl TypeError"

section \<open>The data model of \<^verbatim>\<open>models.py\<close>\<close>

text \<open>
  \<^verbatim>\<open>TrustPolicy\<close> and \<^verbatim>\<open>Agent\<close> are pydantic models; the fields typed \<^verbatim>\<open>Dict[str, Any]\<close>
  are dicts with string keys. The fields the trust service never reads (\<^verbatim>\<open>created_at\<close>,
  \<^verbatim>\<open>status\<close>, \<^verbatim>\<open>last_active\<close>) are left out.
\<close>

record TrustPolicy =
  policy_id :: string
  policy_name :: string
  description :: string
  rules :: "(string \<times> pyval) list"

record Agent =
  agent_id :: string
  agent_name :: string
  organization :: string
  vlei_credential :: "(string \<times> pyval) list option"
  credential_verified :: bool
  verification_details :: "(string \<times> pyval) list option"
  trust_policies :: "TrustPolicy list"
  metadata :: "(string \<times> pyval) list"

section \<open>Rules\<close>

text \<open>
  A rule returns a dict with the keys \<^verbatim>\<open>passed\<close> and \<^verbatim>\<open>reason\<close> and, depending on the
  rule, \<^verbatim>\<open>value\<close>, \<^verbatim>\<open>requirement\<close> and \<^verbatim>\<open>preferred\<close>; an absent key is \<open>None\<close>. The reason
  is an f-string; the model keeps the template that was chosen and the values put into
  it, and formats them where the source builds the string, so that a value without a text
  raises there.
\<close>

datatype rule_reason =
    UnknownRuleSkipped string
  | RuleEvaluationError pyerror
  | EsgScore pyval bool pyval pyval
  | JurisdictionBlocked pyval
  | JurisdictionNotAllowed pyval
  | JurisdictionIs pyval bool
  | OrganizationSize pyval bool
  | SectorBlocked pyval
  | SectorNotAllowed pyval
  | SectorAcceptable pyval

record rule_result =
  rr_passed :: bool
  rr_reason :: rule_reason
  rr_value :: "pyval option"
  rr_requirement :: "pyval option"
  rr_preferred :: "bool option"

text \<open>
  \<^verbatim>\<open>rule_config.get(key, default)\<close>: the configuration of a rule is whatever the policy
  stores under the rule's name; an object that is not a dict has no \<^verbatim>\<open>get\<close>.
\<close>

fun config_get :: "pyval \<Rightarrow> string \<Rightarrow> pyval \<Rightarrow> pyerror + pyval" where
  "config_get (PDict d) k dflt = Inr (case map_of d k of Some v \<Rightarrow> v | None \<Rightarrow> dflt)"
| "config_get c k dflt = Inl AttributeError"

text \<open>Sequencing of steps that may raise: the first exception ends the computation.\<close>

definition and_then :: "pyerror + 'a \<Rightarrow> ('a \<Rightarrow> pyerror + 'b) \<Rightarrow> pyerror + 'b" where
  "and_then m f = (case m of Inl e \<Rightarrow> Inl e | Inr x \<Rightarrow> f x)"

text \<open>\<^verbatim>\<open>a <= b <= c\<close>: the second comparison is made only when the first holds.\<close>

definition chain_le :: "pyval \<Rightarrow> pyval \<Rightarrow> pyval \<Rightarrow> pyerror + bool" where
  "chain_le a b c = and_then (py_le a b) (\<lambda>r. if r then py_le b c else Inr False)"

text \<open>
  \<^verbatim>\<open>xs and x in xs\<close> and \<^verbatim>\<open>xs and x not in xs\<close>, taken as conditions: the membership
  test runs only for a true \<open>xs\<close>.
\<close>

definition truthy_and_in :: "pyval \<Rightarrow> pyval \<Rightarrow> pyerror + bool" where
  "truthy_and_in xs x = (if py_truthy xs then py_in x xs else Inr False)"

definition truthy_and_not_in :: "pyval \<Rightarrow> pyval \<Rightarrow> pyerror + bool" where
  "truthy_and_not_in xs x =
     (if py_truthy xs then and_then (py_in x xs) (\<lambda>b. Inr (\<not> b)) else Inr False)"

definition evaluate_esg_rule :: "pyval \<Rightarrow> pydict \<Rightarrow> pyerror + rule_result" where
  "evaluate_esg_rule rule_config agent_data =
     (let esg_score = data_get agent_data ''esg_score'' (PInt 50) in
      and_then (config_get rule_config ''min'' (PInt 0)) (\<lambda>min_score.
      and_then (config_get rule_config ''max'' (PInt 100)) (\<lambda>max_score.
      and_then (chain_le min_score esg_score max_score) (\<lambda>passed.
        and_then (format_values [esg_score, min_score, max_score]) (\<lambda>_.
          Inr \<lparr>rr_passed = passed,
             rr_reason = EsgScore esg_score passed min_score max_score,
             rr_value = Some esg_score,
             rr_requirement = Some rule_config,
             rr_preferred = None\<rparr>)))))"

definition evaluate_jurisdiction_rule :: "pyval \<Rightarrow> pydict \<Rightarrow> pyerror + rule_result" where
  "evaluate_jurisdiction_rule rule_config agent_data =
     (let agent_jurisdiction = data_get agent_data ''jurisdiction'' (PStr ''UNKNOWN'') in
      and_then (config_get rule_config ''allowed'' (PList [])) (\<lambda>allowed_jurisdictions.
      and_then (config_get rule_config ''blocked'' (PList [])) (\<lambda>blocked_jurisdictions.
      and_then (config_get rule_config ''preferred'' (PList [])) (\<lambda>preferred_jurisdictions.
      and_then (truthy_and_in blocked_jurisdictions agent_jurisdiction) (\<lambda>is_blocked.
        if is_blocked then
          and_then (format_values [agent_jurisdiction]) (\<lambda>_.
          Inr \<lparr>rr_passed = False,
               rr_reason = JurisdictionBlocked agent_jurisdiction,
               rr_value = Some agent_jurisdiction,
               rr_requirement = Some rule_config,
               rr_preferred = None\<rparr>)
        else
      and_then (truthy_and_not_in allowed_jurisdictions agent_jurisdiction) (\<lambda>not_allowed.
        if not_allowed then
          and_then (format_values [agent_jurisdiction]) (\<lambda>_.
          Inr \<lparr>rr_passed = False,
               rr_reason = JurisdictionNotAllowed agent_jurisdiction,
               rr_value = Some agent_jurisdiction,
               rr_requirement = Some rule_config,
               rr_preferred = None\<rparr>)
        else
      and_then (if py_truthy preferred_jurisdictions
                then py_in agent_jurisdiction preferred_jurisdictions else Inr True) (\<lambda>is_preferred.
          and_then (format_values [agent_jurisdiction]) (\<lambda>_.
          Inr \<lparr>rr_passed = True,
               rr_reason = JurisdictionIs agent_jurisdiction is_preferred,
               rr_value = Some agent_jurisdiction,
               rr_requirement = Some rule_config,
               rr_preferred = Some is_preferred\<rparr>))))))))"

definition evaluate_size_rule :: "pyval \<Rightarrow> pydict \<Rightarrow> pyerror + rule_result" where
  "evaluate_size_rule rule_config agent_data =
     (let size = data_get agent_data ''organization_size'' (PStr ''medium'') in
      and_then (config_get rule_config ''allowed''
                  (PList [PStr ''small'', PStr ''medium'', PStr ''large'', PStr ''enterprise''])) (\<lambda>allowed_sizes.
      and_then (py_in size allowed_sizes) (\<lambda>passed.
        and_then (format_values [size]) (\<lambda>_.
          Inr \<lparr>rr_passed = passed,
             rr_reason = OrganizationSize size passed,
             rr_value = Some size,
             rr_requirement = Some rule_config,
             rr_preferred = None\<rparr>))))"

definition evaluate_sector_rule :: "pyval \<Rightarrow> pydict \<Rightarrow> pyerror + rule_result" where
  "evaluate_sector_rule rule_config agent_data =
     (let sector = data_get agent_data ''sector'' (PStr ''unknown'') in
      and_then (config_get rule_config ''allowed'' (PList [])) (\<lambda>allowed_sectors.
      and_then (config_get rule_config ''blocked'' (PList [])) (\<lambda>blocked_sectors.
      and_then (truthy_and_in blocked_sectors sector) (\<lambda>is_blocked.
        if is_blocked then
          and_then (format_values [sector]) (\<lambda>_.
          Inr \<lparr>rr_passed = False,
               rr_reason = SectorBlocked sector,
               rr_value = Some sector,
               rr_requirement = Some rule_config,
               rr_preferred = None\<rparr>)
        else
      and_then (truthy_and_not_in allowed_sectors sector) (\<lambda>not_allowed.
        if not_allowed then
          and_then (format_values [sector]) (\<lambda>_.
          Inr \<lparr>rr_passed = False,
               rr_reason = SectorNotAllowed sector,
               rr_value = Some sector,
               rr_requirement = Some rule_config,
               rr_preferred = None\<rparr>)
        else
          and_then (format_values [sector]) (\<lambda>_.
          Inr \<lparr>rr_passed = True,
               rr_reason = SectorAcceptable sector,
               rr_value = Some sector,
               rr_requirement = Some rule_config,
               rr_preferred = None\<rparr>))))))"

text \<open>
  \<^verbatim>\<open>_evaluate_rule\<close> dispatches on the rule's name; an exception raised by a rule function
  is caught and becomes a failed result.
\<close>

definition evaluate_rule :: "string \<Rightarrow> pyval \<Rightarrow> pydict \<Rightarrow> rule_result" where
  "evaluate_rule rule_name rule_config agent_data =
     (case (if rule_name = ''esg_score'' then evaluate_esg_rule rule_config agent_data
            else if rule_name = ''jurisdiction'' then evaluate_jurisdiction_rule rule_config agent_data
            else if rule_name = ''organization_size'' then evaluate_size_rule rule_config agent_data
            else if rule_name = ''sector'' then evaluate_sector_rule rule_config agent_data
            else Inr \<lparr>rr_passed = True,
                      rr_reason = UnknownRuleSkipped rule_name,
                      rr_value = None,
                      rr_requirement = None,
                      rr_preferred = None\<rparr>) of
        Inl e \<Rightarrow>
          \<lparr>rr_passed = False,
           rr_reason = RuleEvaluationError e,
           rr_value = None,
           rr_requirement = None,
           rr_preferred = None\<rparr>
      | Inr r \<Rightarrow> r)"

section \<open>Attribute resolution\<close>

text \<open>
  \<^verbatim>\<open>_extract_agent_data\<close> copies the metadata, merges the verification details and the
  credential's \<^verbatim>\<open>credentialSubject\<close> over it, and then fills in each default whose key is
  still missing. The credential subject is whatever the credential holds under that key;
  \<^verbatim>\<open>update\<close> raises when it is neither a dict nor a sequence of pairs.
\<close>

definition defaults :: "(string \<times> pyval) list" where
  "defaults =
     [(''esg_score'', PInt 75),
      (''jurisdiction'', PStr ''EU''),
      (''organization_size'', PStr ''medium''),
      (''sector'', PStr ''technology'')]"

definition add_default :: "pydict \<Rightarrow> string \<times> pyval \<Rightarrow> pydict" where
  "add_default agent_data kv =
     (if dict_get agent_data (PStr (fst kv)) = None
      then dict_set agent_data (PStr (fst kv)) (snd kv) else agent_data)"

definition credential_subject :: "(string \<times> pyval) list \<Rightarrow> pyval" where
  "credential_subject cred =
     (case map_of cred ''credentialSubject'' of Some cs \<Rightarrow> cs | None \<Rightarrow> PDict [])"

definition extract_agent_data :: "Agent \<Rightarrow> pyerror + pydict" where
  "extract_agent_data agent =
     (let from_metadata = (if metadata agent \<noteq> [] then dict_copy (metadata agent) else []);
          with_details =
            (case verification_details agent of
               None \<Rightarrow> from_metadata
             | Some vd \<Rightarrow> if vd \<noteq> [] then update_items from_metadata vd else from_metadata)
      in and_then
           (case vlei_credential agent of
              None \<Rightarrow> Inr with_details
            | Some cred \<Rightarrow>
                if cred \<noteq> [] then dict_update with_details (credential_subject cred)
                else Inr with_details)
           (\<lambda>agent_data. Inr (foldl add_default agent_data defaults)))"

section \<open>Policy evaluation\<close>

datatype policy_details = RuleDetails "(string \<times> rule_result) list" | ErrorDetails pyerror

record policy_result =
  pr_name :: string
  pr_passed :: bool
  pr_details :: policy_details
  pr_score :: rat

text \<open>
  The result of \<^verbatim>\<open>_evaluate_policy\<close>: the details are the rule results by rule name or,
  when the evaluation raised, the error. The score starts at 1 and is halved by every
  failed rule; it is kept as an exact number.
\<close>

text \<open>\<^verbatim>\<open>details[rule_name] = rule_result\<close>.\<close>

fun assign :: "(string \<times> rule_result) list \<Rightarrow> string \<Rightarrow> rule_result \<Rightarrow> (string \<times> rule_result) list" where
  "assign [] k v = [(k, v)]"
| "assign ((k', v') # d) k v = (if k' = k then (k', v) # d else (k', v') # assign d k v)"

text \<open>The loop over \<^verbatim>\<open>rules.items()\<close>; its state is \<open>(passed, details, score)\<close>.\<close>

fun rule_loop ::
  "pydict \<Rightarrow> (string \<times> pyval) list \<Rightarrow> bool \<times> (string \<times> rule_result) list \<times> rat
     \<Rightarrow> bool \<times> (string \<times> rule_result) list \<times> rat" where
  "rule_loop agent_data [] st = st"
| "rule_loop agent_data ((rule_name, rule_config) # rest) (passed, details, score) =
     (let rule_result = evaluate_rule rule_name rule_config agent_data;
          details' = assign details rule_name rule_result
      in if \<not> rr_passed rule_result
         then rule_loop agent_data rest (False, details', score * (1 / 2))
         else rule_loop agent_data rest (passed, details', score))"

definition evaluate_policy :: "TrustPolicy \<Rightarrow> Agent \<Rightarrow> policy_result" where
  "evaluate_policy policy target_agent =
     (case extract_agent_data target_agent of
        Inl e \<Rightarrow>
          \<lparr>pr_name = policy_name policy, pr_passed = False,
           pr_details = ErrorDetails e, pr_score = 0\<rparr>
      | Inr agent_data \<Rightarrow>
          (case rule_loop agent_data (rules policy) (True, [], 1) of
             (passed, details, score) \<Rightarrow>
               \<lparr>pr_name = policy_name policy, pr_passed = passed,
                pr_details = RuleDetails details, pr_score = score\<rparr>))"

section \<open>Trust score and decision\<close>

text \<open>
  Floats are IEEE 754 doubles, each given by the rational number it denotes. An operation
  on doubles returns the double nearest to the exact result, the one with the even
  significand when two are equally near. For a positive \<open>x\<close>, \<open>binary_exponent x\<close> is the
  \<open>e\<close> with \<open>2 ^ e \<le> x < 2 ^ (e + 1)\<close>; doubles at that exponent are the multiples of
  \<open>2 ^ (e - 52)\<close>, and below \<open>2 ^ - 1022\<close> the multiples of \<open>2 ^ - 1074\<close>. Overflow to
  infinity is left out: the quotients that are rounded here are at most 1.
\<close>

definition pow2 :: "int \<Rightarrow> rat" where
  "pow2 k = (if 0 \<le> k then 2 ^ nat k else 1 / 2 ^ nat (- k))"

definition round_half_even :: "rat \<Rightarrow> int" where
  "round_half_even x =
     (let f = \<lfloor>x\<rfloor>; r = x - of_int f
      in if r < 1 / 2 then f else if 1 / 2 < r then f + 1 else if even f then f else f + 1)"

definition binary_exponent :: "rat \<Rightarrow> int" where
  "binary_exponent x =
     (if 1 \<le> x then int (floorlog 2 (nat \<lfloor>x\<rfloor>)) - 1
      else - int (floorlog 2 (nat (\<lceil>1 / x\<rceil> - 1))))"

definition round_double :: "rat \<Rightarrow> rat" where
  "round_double x =
     (if x = 0 then 0
      else (let e = max (binary_exponent \<bar>x\<bar>) (- 1022); ulp = pow2 (e - 52)
            in of_int (round_half_even (x / ulp)) * ulp))"

text \<open>
  The trust score is the mean of the policy scores, at most 1, and 0 for no results. The
  scores are multiples of 1/16 (a policy has at most four failing rules), so their sum is
  exact in doubles; the division by the number of results rounds.
\<close>

definition calculate_trust_score :: "policy_result list \<Rightarrow> rat" where
  "calculate_trust_score policy_results =
     (if policy_results = [] then 0
      else min (round_double
                  (sum_list (map pr_score policy_results) / of_nat (length policy_results))) 1)"

definition load_default_policies :: "TrustPolicy list" where
  "load_default_policies =
     [\<lparr>policy_id = ''default-esg'', policy_name = ''ESG Compliance'',
       description = ''Minimum ESG score requirement'',
       rules = [(''esg_score'', PDict [(''min'', PInt 60)])]\<rparr>,
      \<lparr>policy_id = ''default-jurisdiction'', policy_name = ''Jurisdiction Trust'',
       description = ''Acceptable jurisdictions for business'',
       rules = [(''jurisdiction'',
                 PDict [(''preferred'', PList [PStr ''EU'', PStr ''US'', PStr ''CA'', PStr ''UK'', PStr ''AU'']),
                        (''blocked'', PList [PStr ''SANCTIONED''])])]\<rparr>]"

text \<open>
  \<^verbatim>\<open>self.default_policies\<close> is assigned once, in \<^verbatim>\<open>__init__\<close>, from
  \<^verbatim>\<open>_load_default_policies\<close>.
\<close>

definition default_policies :: "TrustPolicy list" where
  "default_policies = load_default_policies"

datatype result_details =
    CredentialGate bool bool
  | PolicyResults "policy_result list" string

record TrustVerificationResult =
  allowed :: bool
  reason :: string
  score :: rat
  policies_passed :: "string list"
  policies_failed :: "string list"
  result_details :: result_details

text \<open>\<^verbatim>\<open>', '.join(names)\<close>.\<close>

fun join_comma :: "string list \<Rightarrow> string" where
  "join_comma [] = []"
| "join_comma [x] = x"
| "join_comma (x # y # ys) = x @ '', '' @ join_comma (y # ys)"

text \<open>
  The loop over the policies to check; its state is
  \<open>(policy_results, policies_passed, policies_failed)\<close>.
\<close>

fun policy_loop ::
  "Agent \<Rightarrow> TrustPolicy list \<Rightarrow> policy_result list \<times> string list \<times> string list
     \<Rightarrow> policy_result list \<times> string list \<times> string list" where
  "policy_loop target_agent [] st = st"
| "policy_loop target_agent (policy # rest) (policy_results, passed_names, failed_names) =
     (let result = evaluate_policy policy target_agent
      in if pr_passed result
         then policy_loop target_agent rest
                (policy_results @ [result], passed_names @ [policy_name policy], failed_names)
         else policy_loop target_agent rest
                (policy_results @ [result], passed_names, failed_names @ [policy_name policy]))"

text \<open>
  \<^verbatim>\<open>verify_trust\<close>. The timestamp put into the verification details is the clock reading
  at the time of the call (\<^verbatim>\<open>datetime.utcnow().isoformat()\<close>), an input of the model.
  Nothing in the body raises (\<^verbatim>\<open>_evaluate_policy\<close> catches its own exceptions), so the
  handler that answers \<^verbatim>\<open>system_error\<close> is never entered. The literal \<^verbatim>\<open>0.7\<close> is the
  double nearest to 7/10.
\<close>

definition verify_trust :: "string \<Rightarrow> Agent \<Rightarrow> Agent \<Rightarrow> TrustVerificationResult" where
  "verify_trust now source_agent target_agent =
     (if \<not> credential_verified source_agent \<or> \<not> credential_verified target_agent then
        \<lparr>allowed = False,
         reason = ''One or both agents lack verified vLEI credentials'',
         score = 0,
         policies_passed = [],
         policies_failed = [''credential_verification''],
         result_details =
           CredentialGate (credential_verified source_agent) (credential_verified target_agent)\<rparr>
      else
        (let policies_to_check =
               (if trust_policies source_agent \<noteq> [] then trust_policies source_agent
                else default_policies)
         in case policy_loop target_agent policies_to_check ([], [], []) of
              (policy_results, passed_names, failed_names) \<Rightarrow>
                (let trust_score = calculate_trust_score policy_results;
                     is_allowed = (round_double (7 / 10) \<le> trust_score \<and> length failed_names = 0)
                 in \<lparr>allowed = is_allowed,
                     reason = (if is_allowed then ''Trust verification passed''
                               else ''Failed policies: '' @ join_comma failed_names),
                     score = trust_score,
                     policies_passed = passed_names,
                     policies_failed = failed_names,
                     result_details = PolicyResults policy_results now\<rparr>)))"

section \<open>Objects and effects\<close>

text \<open>
  A dict is a mutable object. To follow what \<^verbatim>\<open>verify_trust\<close> does to the agents it is
  given, the dict objects live in a heap, each at its address, and an agent object refers
  to its metadata, its verification details and its credential by address. Creating a dict
  (\<^verbatim>\<open>{}\<close>, \<^verbatim>\<open>d.copy()\<close>) takes the next free address; \<^verbatim>\<open>update\<close> and item assignment
  change the dict at the address they are applied to. The heap also carries the records
  passed to \<^verbatim>\<open>logger.error\<close>. The results of rules and policies and the lists of
  \<^verbatim>\<open>verify_trust\<close> are created where they are filled and stay values, as are the policies,
  which are only read.
\<close>

type_synonym addr = nat

datatype log_record = PolicyEvaluationError string pyerror

record heap =
  cells :: "addr \<Rightarrow> pydict"
  next_addr :: addr
  logged :: "log_record list"

record AgentObj =
  obj_id :: string
  obj_name :: string
  obj_organization :: string
  obj_vlei_credential :: "addr option"
  obj_credential_verified :: bool
  obj_verification_details :: "addr option"
  obj_trust_policies :: "TrustPolicy list"
  obj_metadata :: addr

definition new_dict :: "pydict \<Rightarrow> heap \<Rightarrow> addr \<times> heap" where
  "new_dict d h =
     (next_addr h, h\<lparr>cells := (cells h)(next_addr h := d), next_addr := Suc (next_addr h)\<rparr>)"

definition store_dict :: "addr \<Rightarrow> pydict \<Rightarrow> heap \<Rightarrow> heap" where
  "store_dict a d h = h\<lparr>cells := (cells h)(a := d)\<rparr>"

text \<open>\<^verbatim>\<open>d.update(m)\<close> for a dict object \<open>m\<close>.\<close>

definition update_pairs :: "pydict \<Rightarrow> pydict \<Rightarrow> pydict" where
  "update_pairs d kvs = foldl (\<lambda>acc kv. dict_set acc (fst kv) (snd kv)) d kvs"

text \<open>\<^verbatim>\<open>agent.metadata.copy() if agent.metadata else {}\<close>: a new dict in both cases.\<close>

definition copy_metadata :: "AgentObj \<Rightarrow> heap \<Rightarrow> addr \<times> heap" where
  "copy_metadata agent h =
     (if cells h (obj_metadata agent) \<noteq> [] then new_dict (cells h (obj_metadata agent)) h
      else new_dict [] h)"

definition update_with_details :: "AgentObj \<Rightarrow> addr \<Rightarrow> heap \<Rightarrow> heap" where
  "update_with_details agent agent_data h =
     (case obj_verification_details agent of
        None \<Rightarrow> h
      | Some r \<Rightarrow>
          if cells h r \<noteq> []
          then store_dict agent_data (update_pairs (cells h agent_data) (cells h r)) h
          else h)"

definition credential_subject_of :: "pydict \<Rightarrow> pyval" where
  "credential_subject_of cred =
     (case dict_get cred (PStr ''credentialSubject'') of Some cs \<Rightarrow> cs | None \<Rightarrow> PDict [])"

definition update_with_subject :: "AgentObj \<Rightarrow> addr \<Rightarrow> heap \<Rightarrow> pyerror + heap" where
  "update_with_subject agent agent_data h =
     (case obj_vlei_credential agent of
        None \<Rightarrow> Inr h
      | Some c \<Rightarrow>
          if cells h c \<noteq> []
          then and_then (dict_update (cells h agent_data) (credential_subject_of (cells h c)))
                 (\<lambda>d. Inr (store_dict agent_data d h))
          else Inr h)"

definition add_defaults :: "addr \<Rightarrow> heap \<Rightarrow> heap" where
  "add_defaults agent_data h =
     store_dict agent_data (foldl add_default (cells h agent_data) defaults) h"

text \<open>
  \<^verbatim>\<open>_extract_agent_data\<close> on the heap; it returns the address of \<^verbatim>\<open>agent_data\<close>. When
  \<^verbatim>\<open>update\<close> raises, the new dict is left behind with what it holds.
\<close>

definition extract_agent_data_st :: "AgentObj \<Rightarrow> heap \<Rightarrow> (pyerror + addr) \<times> heap" where
  "extract_agent_data_st agent h =
     (case copy_metadata agent h of
        (agent_data, h1) \<Rightarrow>
          (let h2 = update_with_details agent agent_data h1
           in (case update_with_subject agent agent_data h2 of
                 Inl e \<Rightarrow> (Inl e, h2)
               | Inr h3 \<Rightarrow> (Inr agent_data, add_defaults agent_data h3))))"

text \<open>
  \<^verbatim>\<open>_evaluate_policy\<close> on the heap: the handler logs the error before it answers.
\<close>

definition evaluate_policy_st :: "TrustPolicy \<Rightarrow> AgentObj \<Rightarrow> heap \<Rightarrow> policy_result \<times> heap" where
  "evaluate_policy_st policy target_agent h =
     (case extract_agent_data_st target_agent h of
        (Inl e, h') \<Rightarrow>
          (\<lparr>pr_name = policy_name policy, pr_passed = False,
            pr_details = ErrorDetails e, pr_score = 0\<rparr>,
           h'\<lparr>logged := logged h' @ [PolicyEvaluationError (policy_name policy) e]\<rparr>)
      | (Inr agent_data, h') \<Rightarrow>
          (case rule_loop (cells h' agent_data) (rules policy) (True, [], 1) of
             (passed, details, final_score) \<Rightarrow>
               (\<lparr>pr_name = policy_name policy, pr_passed = passed,
                 pr_details = RuleDetails details, pr_score = final_score\<rparr>,
                h')))"

fun policy_loop_st ::
  "AgentObj \<Rightarrow> TrustPolicy list \<Rightarrow> policy_result list \<times> string list \<times> string list \<Rightarrow> heap
     \<Rightarrow> (policy_result list \<times> string list \<times> string list) \<times> heap" where
  "policy_loop_st target_agent [] st h = (st, h)"
| "policy_loop_st target_agent (policy # rest) (policy_results, passed_names, failed_names) h =
     (case evaluate_policy_st policy target_agent h of
        (result, h') \<Rightarrow>
          if pr_passed result
          then policy_loop_st target_agent rest
                 (policy_results @ [result], passed_names @ [policy_name policy], failed_names) h'
          else policy_loop_st target_agent rest
                 (policy_results @ [result], passed_names, failed_names @ [policy_name policy]) h')"

definition verify_trust_st ::
  "string \<Rightarrow> AgentObj \<Rightarrow> AgentObj \<Rightarrow> heap \<Rightarrow> TrustVerificationResult \<times> heap" where
  "verify_trust_st now source_agent target_agent h =
     (if \<not> obj_credential_verified source_agent \<or> \<not> obj_credential_verified target_agent then
        (\<lparr>allowed = False,
          reason = ''One or both agents lack verified vLEI credentials'',
          score = 0,
          policies_passed = [],
          policies_failed = [''credential_verification''],
          result_details =
            CredentialGate (obj_credential_verified source_agent)
              (obj_credential_verified target_agent)\<rparr>,
         h)
      else
        (let policies_to_check =
               (if obj_trust_policies source_agent \<noteq> [] then obj_trust_policies source_agent
                else default_policies)
         in case policy_loop_st target_agent policies_to_check ([], [], []) h of
              ((policy_results, passed_names, failed_names), h') \<Rightarrow>
                (let trust_score = calculate_trust_score policy_results;
                     is_allowed = (round_double (7 / 10) \<le> trust_score \<and> length failed_names = 0)
                 in (\<lparr>allowed = is_allowed,
                      reason = (if is_allowed then ''Trust verification passed''
                                else ''Failed policies: '' @ join_comma failed_names),
                      score = trust_score,
                      policies_passed = passed_names,
                      policies_failed = failed_names,
                      result_details = PolicyResults policy_results now\<rparr>,
                     h'))))"

text \<open>
  An agent object read from the heap is an agent of the data model; its dicts have string
  keys. An agent object is in the heap when the dicts it refers to have been created and
  have string keys.
\<close>

definition str_items :: "pydict \<Rightarrow> (string \<times> pyval) list" where
  "str_items d = concat (map (\<lambda>kv. case fst kv of PStr k \<Rightarrow> [(k, snd kv)] | _ \<Rightarrow> []) d)"

definition string_keyed :: "pydict \<Rightarrow> bool" where
  "string_keyed d = list_all (\<lambda>kv. case fst kv of PStr k \<Rightarrow> True | _ \<Rightarrow> False) d"

definition load_agent :: "heap \<Rightarrow> AgentObj \<Rightarrow> Agent" where
  "load_agent h agent =
     \<lparr>agent_id = obj_id agent,
      agent_name = obj_name agent,
      organization = obj_organization agent,
      vlei_credential = map_option (\<lambda>a. str_items (cells h a)) (obj_vlei_credential agent),
      credential_verified = obj_credential_verified agent,
      verification_details = map_option (\<lambda>a. str_items (cells h a)) (obj_verification_details agent),
      trust_policies = obj_trust_policies agent,
      metadata = str_items (cells h (obj_metadata agent))\<rparr>"

definition dict_in_heap :: "heap \<Rightarrow> addr \<Rightarrow> bool" where
  "dict_in_heap h a = (a < next_addr h \<and> string_keyed (cells h a))"

definition agent_in_heap :: "heap \<Rightarrow> AgentObj \<Rightarrow> bool" where
  "agent_in_heap h agent =
     (dict_in_heap h (obj_metadata agent) \<and>
      (case obj_verification_details agent of None \<Rightarrow> True | Some a \<Rightarrow> dict_in_heap h a) \<and>
      (case obj_vlei_credential agent of None \<Rightarrow> True | Some a \<Rightarrow> dict_in_heap h a))"

section \<open>Basic facts\<close>

lemma and_then_simps [simp]:
  "and_then (Inr x) f = f x"
  "and_then (Inl e) f = Inl e"
  by (simp_all add: and_then_def)

lemma py_eq_PStr_right [simp]: "py_eq a (PStr k) \<longleftrightarrow> a = PStr k"
  by (cases a) auto

lemma py_le_numeric_PInt: "num_of a = Some x \<Longrightarrow> py_le a (PInt j) = Inr (x \<le> of_int j)"
  by (cases a) auto

lemma dec_digits_le_Suc: "dec_digits n \<le> Suc n"
proof (induction n rule: dec_digits.induct)
  case (1 n)
  show ?case
  proof (cases "n < 10")
    case True
    then show ?thesis by (subst dec_digits.simps) simp
  next
    case False
    have "dec_digits n = Suc (dec_digits (n div 10))"
      using False by (subst dec_digits.simps) simp
    with "1.IH" [OF False] False show ?thesis by simp
  qed
qed


lemma formattable_small_int: "\<bar>i\<bar> \<le> 100 \<Longrightarrow> formattable (PInt i)"
proof -
  assume "\<bar>i\<bar> \<le> 100"
  then have "nat \<bar>i\<bar> \<le> 100" by simp
  with dec_digits_le_Suc [of "nat \<bar>i\<bar>"] show ?thesis by simp
qed

lemma formattable_in_range:
  assumes "num_of v = Some x" "85 \<le> x" "x \<le> 100"
  shows "formattable v"
proof (cases v)
  case (PInt i)
  with assms have "\<bar>i\<bar> \<le> 100" by simp
  then show ?thesis
    unfolding PInt by (rule formattable_small_int)
qed (use assms in simp_all)



lemma format_values_single [simp]:
  "format_values [v] = (if formattable v then Inr () else Inl ValueError)"
  by (simp add: format_values_def)

lemma round_double_one: "round_double 1 = 1"
  by code_simp

lemma threshold_value: "round_double (7 / 10) = 3152519739159347 / 4503599627370496"
  by code_simp

section \<open>Rule dispatch\<close>

text \<open>
  Claim C5. A rule whose name is none of \<^verbatim>\<open>esg_score\<close>, \<^verbatim>\<open>jurisdiction\<close>,
  \<^verbatim>\<open>organization_size\<close> and \<^verbatim>\<open>sector\<close> passes, whatever its configuration and whatever
  the attribute set.
\<close>

theorem unknown_rule_passes:
  "rule_name \<notin> {''esg_score'', ''jurisdiction'', ''organization_size'', ''sector''} \<Longrightarrow>
   rr_passed (evaluate_rule rule_name rule_config agent_data)"
  by (simp add: evaluate_rule_def)

theorem unknown_rule_passes_witness:
  "''foo'' \<notin> {''esg_score'', ''jurisdiction'', ''organization_size'', ''sector''} \<and>
   rr_passed (evaluate_rule ''foo'' (PInt 3) [])"
  using unknown_rule_passes [of "''foo''" "PInt 3" "[]"] by simp

section \<open>The ESG rule\<close>

text \<open>
  Claim C7, as stated: with the configuration \<^verbatim>\<open>{min: 85}\<close> the rule passes if and only
  if the score is at least 85. The upper bound of the range defaults to 100, so a score of
  101 is at least 85 and fails.
\<close>

theorem esg_min_85_counterexample:
  "data_get [(PStr ''esg_score'', PInt 101)] ''esg_score'' (PInt 50) = PInt 101 \<and>
   (85::int) \<le> 101 \<and>
   \<not> rr_passed (evaluate_rule ''esg_score'' (PDict [(''min'', PInt 85)])
                  [(PStr ''esg_score'', PInt 101)])"
  by code_simp

text \<open>
  Claim C7, amended: with the configuration \<^verbatim>\<open>{min: 85}\<close> the rule passes if and only if
  the score is a number between 85 and 100, both included. A score that is not a number
  makes the comparison raise, and the rule fails.
\<close>

theorem esg_min_85_range:
  "rr_passed (evaluate_rule ''esg_score'' (PDict [(''min'', PInt 85)]) agent_data) \<longleftrightarrow>
   (case num_of (data_get agent_data ''esg_score'' (PInt 50)) of
      Some x \<Rightarrow> 85 \<le> x \<and> x \<le> 100
    | None \<Rightarrow> False)"
proof (cases "num_of (data_get agent_data ''esg_score'' (PInt 50))")
  case None
  then show ?thesis
    by (simp add: evaluate_rule_def evaluate_esg_rule_def chain_le_def Let_def)
next
  case (Some x)
  show ?thesis
  proof (cases "85 \<le> x \<and> x \<le> 100")
    case True
    with Some have "formattable (data_get agent_data ''esg_score'' (PInt 50))"
      by (auto intro: formattable_in_range)
    moreover have "formattable (PInt 85)" "formattable (PInt 100)"
      by (rule formattable_small_int, simp)+
    ultimately show ?thesis
      using Some True
      by (simp add: evaluate_rule_def evaluate_esg_rule_def chain_le_def Let_def
          py_le_numeric_PInt format_values_def del: formattable.simps)
  next
    case False
    with Some show ?thesis
      by (auto simp add: evaluate_rule_def evaluate_esg_rule_def chain_le_def Let_def
          py_le_numeric_PInt format_values_def simp del: formattable.simps)
  qed
qed

theorem esg_min_85_range_witness:
  "rr_passed (evaluate_rule ''esg_score'' (PDict [(''min'', PInt 85)]) [(PStr ''esg_score'', PInt 85)]) \<and>
   \<not> rr_passed (evaluate_rule ''esg_score'' (PDict [(''min'', PInt 85)]) [(PStr ''esg_score'', PInt 84)])"
  using esg_min_85_range [of "[(PStr ''esg_score'', PInt 85)]"]
        esg_min_85_range [of "[(PStr ''esg_score'', PInt 84)]"]
  by (simp add: data_get_def)

section \<open>The set-membership rules\<close>








section \<open>The verification gate\<close>

text \<open>
  Claim C1. When the source or the target is not verified, \<^verbatim>\<open>verify_trust\<close> answers
  \<^verbatim>\<open>allowed = False\<close>, \<^verbatim>\<open>score = 0.0\<close>, no passed policy and the single failed policy
  \<^verbatim>\<open>credential_verification\<close>. No policy is evaluated: the answer stays the same when the
  source's policies and the target's metadata, verification details and credential are
  replaced by any others.
\<close>

theorem unverified_short_circuit:
  "\<not> credential_verified source_agent \<or> \<not> credential_verified target_agent \<Longrightarrow>
   allowed (verify_trust now source_agent target_agent) = False \<and>
   score (verify_trust now source_agent target_agent) = 0 \<and>
   policies_passed (verify_trust now source_agent target_agent) = [] \<and>
   policies_failed (verify_trust now source_agent target_agent) = [''credential_verification''] \<and>
   verify_trust now
     (source_agent\<lparr>trust_policies := other_policies\<rparr>)
     (target_agent\<lparr>metadata := other_metadata, verification_details := other_details,
                    vlei_credential := other_credential\<rparr>)
     = verify_trust now source_agent target_agent"
  by (auto simp add: verify_trust_def)

theorem unverified_short_circuit_witness:
  "\<not> credential_verified
       \<lparr>agent_id = ''a'', agent_name = ''A'', organization = ''OrgA'', vlei_credential = None,
        credential_verified = False, verification_details = None, trust_policies = [],
        metadata = []\<rparr> \<and>
   policies_failed
     (verify_trust ''2024-01-01T00:00:00''
        \<lparr>agent_id = ''a'', agent_name = ''A'', organization = ''OrgA'', vlei_credential = None,
         credential_verified = False, verification_details = None, trust_policies = [],
         metadata = []\<rparr>
        \<lparr>agent_id = ''b'', agent_name = ''B'', organization = ''OrgB'', vlei_credential = None,
         credential_verified = True, verification_details = None, trust_policies = [],
         metadata = [(''esg_score'', PInt 88)]\<rparr>) = [''credential_verification'']"
  using unverified_short_circuit
    [of "\<lparr>agent_id = ''a'', agent_name = ''A'', organization = ''OrgA'', vlei_credential = None,
         credential_verified = False, verification_details = None, trust_policies = [],
         metadata = []\<rparr>"
        "\<lparr>agent_id = ''b'', agent_name = ''B'', organization = ''OrgB'', vlei_credential = None,
         credential_verified = True, verification_details = None, trust_policies = [],
         metadata = [(''esg_score'', PInt 88)]\<rparr>"
        "''2024-01-01T00:00:00''"]
  by simp

section \<open>The score of a policy\<close>

lemma rule_loop_passed:
  "fst (rule_loop agent_data rs (passed, details, s)) =
   (passed \<and> list_all (\<lambda>(n, c). rr_passed (evaluate_rule n c agent_data)) rs)"
proof (induction rs arbitrary: passed details s)
  case Nil
  show ?case by simp
next
  case (Cons r rs)
  obtain n c where r: "r = (n, c)" by (cases r)
  show ?case
    by (cases "rr_passed (evaluate_rule n c agent_data)") (simp_all add: r Cons.IH Let_def)
qed

lemma rule_loop_score:
  "snd (snd (rule_loop agent_data rs (passed, details, s))) =
   s * (1 / 2) ^ length (filter (\<lambda>(n, c). \<not> rr_passed (evaluate_rule n c agent_data)) rs)"
proof (induction rs arbitrary: passed details s)
  case Nil
  show ?case by simp
next
  case (Cons r rs)
  obtain n c where r: "r = (n, c)" by (cases r)
  show ?case
    by (cases "rr_passed (evaluate_rule n c agent_data)") (simp_all add: r Cons.IH Let_def)
qed

lemma evaluate_policy_resolved:
  assumes "extract_agent_data target_agent = Inr agent_data"
  shows "pr_passed (evaluate_policy policy target_agent) =
           list_all (\<lambda>(n, c). rr_passed (evaluate_rule n c agent_data)) (rules policy)"
    and "pr_score (evaluate_policy policy target_agent) =
           (1 / 2) ^ length (filter (\<lambda>(n, c). \<not> rr_passed (evaluate_rule n c agent_data)) (rules policy))"
proof -
  obtain p d s where r: "rule_loop agent_data (rules policy) (True, [], 1) = (p, d, s)"
    by (cases "rule_loop agent_data (rules policy) (True, [], 1)") auto
  have "p = list_all (\<lambda>(n, c). rr_passed (evaluate_rule n c agent_data)) (rules policy)"
    using rule_loop_passed [of agent_data "rules policy" True "[]" 1] r by simp
  moreover have "s = (1 / 2) ^ length (filter (\<lambda>(n, c). \<not> rr_passed (evaluate_rule n c agent_data)) (rules policy))"
    using rule_loop_score [of agent_data "rules policy" True "[]" 1] r by simp
  ultimately show
    "pr_passed (evaluate_policy policy target_agent) =
           list_all (\<lambda>(n, c). rr_passed (evaluate_rule n c agent_data)) (rules policy)"
    "pr_score (evaluate_policy policy target_agent) =
           (1 / 2) ^ length (filter (\<lambda>(n, c). \<not> rr_passed (evaluate_rule n c agent_data)) (rules policy))"
    using assms r by (simp_all add: evaluate_policy_def)
qed

lemma evaluate_policy_unresolved:
  assumes "extract_agent_data target_agent = Inl e"
  shows "pr_passed (evaluate_policy policy target_agent) = False"
    and "pr_score (evaluate_policy policy target_agent) = 0"
  using assms by (simp_all add: evaluate_policy_def)

text \<open>
  Claim C3. For a policy evaluated on a resolved attribute set, the score is
  \<open>1 * (1/2) ^ k\<close>, where \<open>k\<close> is the number of rules of the policy that fail, and the
  policy passes if and only if every rule passes; a policy without rules passes with
  score 1.
\<close>

theorem policy_score_halves_per_failure:
  assumes "extract_agent_data target_agent = Inr agent_data"
  shows "pr_score (evaluate_policy policy target_agent) =
           1 * (1 / 2) ^ length (filter (\<lambda>(n, c). \<not> rr_passed (evaluate_rule n c agent_data)) (rules policy)) \<and>
         (pr_passed (evaluate_policy policy target_agent) \<longleftrightarrow>
            (\<forall>(n, c) \<in> set (rules policy). rr_passed (evaluate_rule n c agent_data))) \<and>
         (rules policy = [] \<longrightarrow>
            pr_passed (evaluate_policy policy target_agent) \<and>
            pr_score (evaluate_policy policy target_agent) = 1)"
  using evaluate_policy_resolved [OF assms, of policy]
  by (auto simp add: list_all_iff)

theorem policy_score_halves_per_failure_witness:
  "extract_agent_data
     \<lparr>agent_id = ''c'', agent_name = ''C'', organization = ''OrgC'', vlei_credential = None,
      credential_verified = True, verification_details = None, trust_policies = [],
      metadata = [(''esg_score'', PInt 45)]\<rparr>
   = Inr [(PStr ''esg_score'', PInt 45), (PStr ''jurisdiction'', PStr ''EU''),
          (PStr ''organization_size'', PStr ''medium''), (PStr ''sector'', PStr ''technology'')] \<and>
   pr_score (evaluate_policy
      \<lparr>policy_id = ''p1'', policy_name = ''Strict'', description = ''strict'',
       rules = [(''esg_score'', PDict [(''min'', PInt 90)]),
                (''sector'', PDict [(''allowed'', PList [PStr ''finance''])]),
                (''custom'', PNone)]\<rparr>
      \<lparr>agent_id = ''c'', agent_name = ''C'', organization = ''OrgC'', vlei_credential = None,
       credential_verified = True, verification_details = None, trust_policies = [],
       metadata = [(''esg_score'', PInt 45)]\<rparr>) = 1 / 4 \<and>
   \<not> pr_passed (evaluate_policy
      \<lparr>policy_id = ''p1'', policy_name = ''Strict'', description = ''strict'',
       rules = [(''esg_score'', PDict [(''min'', PInt 90)]),
                (''sector'', PDict [(''allowed'', PList [PStr ''finance''])]),
                (''custom'', PNone)]\<rparr>
      \<lparr>agent_id = ''c'', agent_name = ''C'', organization = ''OrgC'', vlei_credential = None,
       credential_verified = True, verification_details = None, trust_policies = [],
       metadata = [(''esg_score'', PInt 45)]\<rparr>)"
proof -
  have h: "extract_agent_data
     \<lparr>agent_id = ''c'', agent_name = ''C'', organization = ''OrgC'', vlei_credential = None,
      credential_verified = True, verification_details = None, trust_policies = [],
      metadata = [(''esg_score'', PInt 45)]\<rparr>
   = Inr [(PStr ''esg_score'', PInt 45), (PStr ''jurisdiction'', PStr ''EU''),
          (PStr ''organization_size'', PStr ''medium''), (PStr ''sector'', PStr ''technology'')]"
    by code_simp
  have e: "\<not> rr_passed (evaluate_rule ''esg_score'' (PDict [(''min'', PInt 90)])
            [(PStr ''esg_score'', PInt 45), (PStr ''jurisdiction'', PStr ''EU''),
             (PStr ''organization_size'', PStr ''medium''), (PStr ''sector'', PStr ''technology'')])"
    by code_simp
  have s: "\<not> rr_passed (evaluate_rule ''sector'' (PDict [(''allowed'', PList [PStr ''finance''])])
            [(PStr ''esg_score'', PInt 45), (PStr ''jurisdiction'', PStr ''EU''),
             (PStr ''organization_size'', PStr ''medium''), (PStr ''sector'', PStr ''technology'')])"
    by code_simp
  have c: "rr_passed (evaluate_rule ''custom'' PNone
            [(PStr ''esg_score'', PInt 45), (PStr ''jurisdiction'', PStr ''EU''),
             (PStr ''organization_size'', PStr ''medium''), (PStr ''sector'', PStr ''technology'')])"
    by code_simp
  show ?thesis
    using h e s c policy_score_halves_per_failure [OF h,
      of "\<lparr>policy_id = ''p1'', policy_name = ''Strict'', description = ''strict'',
       rules = [(''esg_score'', PDict [(''min'', PInt 90)]),
                (''sector'', PDict [(''allowed'', PList [PStr ''finance''])]),
                (''custom'', PNone)]\<rparr>"]
    by (simp add: power2_eq_square)
qed

text \<open>
  Claim C9. The order of a policy's rules affects neither the \<^verbatim>\<open>passed\<close> flag nor the
  score of the policy's result: two policies whose rule sequences are permutations of each
  other get the same flag and the same score on every target.
\<close>

theorem rule_order_irrelevant:
  assumes "mset (rules policy') = mset (rules policy)"
  shows "pr_passed (evaluate_policy policy' target_agent) = pr_passed (evaluate_policy policy target_agent) \<and>
         pr_score (evaluate_policy policy' target_agent) = pr_score (evaluate_policy policy target_agent)"
proof (cases "extract_agent_data target_agent")
  case (Inl e)
  then show ?thesis by (simp add: evaluate_policy_unresolved)
next
  case (Inr agent_data)
  let ?ok = "\<lambda>(n, c). rr_passed (evaluate_rule n c agent_data)"
  let ?bad = "\<lambda>(n, c). \<not> rr_passed (evaluate_rule n c agent_data)"
  have "set (rules policy') = set (rules policy)"
    using assms by (rule mset_eq_setD)
  then have p: "list_all ?ok (rules policy') = list_all ?ok (rules policy)"
    by (simp add: list_all_iff)
  have "mset (filter ?bad (rules policy')) = mset (filter ?bad (rules policy))"
    using assms by simp
  then have "length (filter ?bad (rules policy')) = length (filter ?bad (rules policy))"
    by (rule mset_eq_length)
  with p show ?thesis
    by (simp add: evaluate_policy_resolved [OF Inr])
qed

theorem rule_order_irrelevant_witness:
  "mset (rules \<lparr>policy_id = ''p2'', policy_name = ''Swapped'', description = ''swapped'',
                rules = [(''sector'', PDict [(''allowed'', PList [PStr ''finance''])]),
                         (''esg_score'', PDict [(''min'', PInt 90)])]\<rparr>)
   = mset (rules \<lparr>policy_id = ''p1'', policy_name = ''Strict'', description = ''strict'',
                  rules = [(''esg_score'', PDict [(''min'', PInt 90)]),
                           (''sector'', PDict [(''allowed'', PList [PStr ''finance''])])]\<rparr>) \<and>
   pr_score (evaluate_policy
      \<lparr>policy_id = ''p2'', policy_name = ''Swapped'', description = ''swapped'',
       rules = [(''sector'', PDict [(''allowed'', PList [PStr ''finance''])]),
                (''esg_score'', PDict [(''min'', PInt 90)])]\<rparr>
      \<lparr>agent_id = ''c'', agent_name = ''C'', organization = ''OrgC'', vlei_credential = None,
       credential_verified = True, verification_details = None, trust_policies = [],
       metadata = [(''esg_score'', PInt 95)]\<rparr>)
   = pr_score (evaluate_policy
      \<lparr>policy_id = ''p1'', policy_name = ''Strict'', description = ''strict'',
       rules = [(''esg_score'', PDict [(''min'', PInt 90)]),
                (''sector'', PDict [(''allowed'', PList [PStr ''finance''])])]\<rparr>
      \<lparr>agent_id = ''c'', agent_name = ''C'', organization = ''OrgC'', vlei_credential = None,
       credential_verified = True, verification_details = None, trust_policies = [],
       metadata = [(''esg_score'', PInt 95)]\<rparr>)"
proof -
  have h: "mset (rules \<lparr>policy_id = ''p2'', policy_name = ''Swapped'', description = ''swapped'',
                rules = [(''sector'', PDict [(''allowed'', PList [PStr ''finance''])]),
                         (''esg_score'', PDict [(''min'', PInt 90)])]\<rparr>)
   = mset (rules \<lparr>policy_id = ''p1'', policy_name = ''Strict'', description = ''strict'',
                  rules = [(''esg_score'', PDict [(''min'', PInt 90)]),
                           (''sector'', PDict [(''allowed'', PList [PStr ''finance''])])]\<rparr>)"
    by simp
  show ?thesis
    using h rule_order_irrelevant [OF h,
      of "\<lparr>agent_id = ''c'', agent_name = ''C'', organization = ''OrgC'', vlei_credential = None,
       credential_verified = True, verification_details = None, trust_policies = [],
       metadata = [(''esg_score'', PInt 95)]\<rparr>"]
    by blast
qed

section \<open>The decision\<close>

lemma policy_loop_eq:
  "policy_loop target_agent ps (rs, pn, fn) =
     (rs @ map (\<lambda>p. evaluate_policy p target_agent) ps,
      pn @ map policy_name (filter (\<lambda>p. pr_passed (evaluate_policy p target_agent)) ps),
      fn @ map policy_name (filter (\<lambda>p. \<not> pr_passed (evaluate_policy p target_agent)) ps))"
  by (induction ps arbitrary: rs pn fn) (simp_all add: Let_def)

lemma verify_trust_verified:
  assumes "credential_verified source_agent" "credential_verified target_agent"
    and "ps = (if trust_policies source_agent \<noteq> [] then trust_policies source_agent else default_policies)"
    and "prs = map (\<lambda>p. evaluate_policy p target_agent) ps"
    and "failed = map policy_name (filter (\<lambda>p. \<not> pr_passed (evaluate_policy p target_agent)) ps)"
  shows "verify_trust now source_agent target_agent =
     \<lparr>allowed = (round_double (7 / 10) \<le> calculate_trust_score prs \<and> failed = []),
      reason = (if round_double (7 / 10) \<le> calculate_trust_score prs \<and> failed = []
                then ''Trust verification passed''
                else ''Failed policies: '' @ join_comma failed),
      score = calculate_trust_score prs,
      policies_passed = map policy_name (filter (\<lambda>p. pr_passed (evaluate_policy p target_agent)) ps),
      policies_failed = failed,
      result_details = PolicyResults prs now\<rparr>"
  using assms by (simp add: verify_trust_def policy_loop_eq Let_def)

text \<open>
  Claim C2. For two verified agents, \<^verbatim>\<open>verify_trust\<close> evaluates every policy to check
  (the source's policies, or the default ones) on the target: the policy results are
  these evaluations, the score is their trust score and \<^verbatim>\<open>policies_failed\<close> holds the name
  of every policy whose result has \<^verbatim>\<open>passed = False\<close>. The decision is
  \<^verbatim>\<open>allowed = (score >= 0.7) and (policies_failed is empty)\<close>, that is, the trust score
  reaches the threshold and every policy to check passes; a single policy result with
  \<^verbatim>\<open>passed = False\<close> makes \<^verbatim>\<open>allowed\<close> false, whatever the score.
\<close>

theorem decision_threshold_and_veto:
  assumes "credential_verified source_agent" "credential_verified target_agent"
    and "policies_to_check =
           (if trust_policies source_agent \<noteq> [] then trust_policies source_agent
            else default_policies)"
    and "policy_results = map (\<lambda>p. evaluate_policy p target_agent) policies_to_check"
  shows "score (verify_trust now source_agent target_agent) = calculate_trust_score policy_results \<and>
         policies_failed (verify_trust now source_agent target_agent)
           = map policy_name
               (filter (\<lambda>p. \<not> pr_passed (evaluate_policy p target_agent)) policies_to_check) \<and>
         policies_passed (verify_trust now source_agent target_agent)
           = map policy_name
               (filter (\<lambda>p. pr_passed (evaluate_policy p target_agent)) policies_to_check) \<and>
         result_details (verify_trust now source_agent target_agent)
           = PolicyResults policy_results now \<and>
         (allowed (verify_trust now source_agent target_agent) \<longleftrightarrow>
            round_double (7 / 10) \<le> score (verify_trust now source_agent target_agent) \<and>
            policies_failed (verify_trust now source_agent target_agent) = []) \<and>
         (allowed (verify_trust now source_agent target_agent) \<longleftrightarrow>
            round_double (7 / 10) \<le> calculate_trust_score policy_results \<and>
            (\<forall>p \<in> set policies_to_check. pr_passed (evaluate_policy p target_agent))) \<and>
         ((\<exists>r \<in> set policy_results. \<not> pr_passed r) \<longrightarrow>
            \<not> allowed (verify_trust now source_agent target_agent))"
proof -
  note v = verify_trust_verified [OF assms(1,2,3,4) refl, of now]
  have e: "filter (\<lambda>p. \<not> pr_passed (evaluate_policy p target_agent)) policies_to_check = [] \<longleftrightarrow>
           (\<forall>p \<in> set policies_to_check. pr_passed (evaluate_policy p target_agent))"
    by (simp add: filter_empty_conv)
  have x: "(\<exists>r \<in> set policy_results. \<not> pr_passed r) \<longleftrightarrow>
           \<not> (\<forall>p \<in> set policies_to_check. pr_passed (evaluate_policy p target_agent))"
    by (simp add: assms(4))
  show ?thesis
    unfolding v x by (simp add: e)
qed

theorem decision_threshold_and_veto_witness:
  "credential_verified
     \<lparr>agent_id = ''a'', agent_name = ''A'', organization = ''OrgA'', vlei_credential = None,
      credential_verified = True, verification_details = None,
      trust_policies =
        [\<lparr>policy_id = ''p1'', policy_name = ''Basic ESG'', description = ''esg'',
          rules = [(''esg_score'', PDict [(''min'', PInt 60)])]\<rparr>,
         \<lparr>policy_id = ''p2'', policy_name = ''No sanctions'', description = ''jurisdiction'',
          rules = [(''jurisdiction'', PDict [(''blocked'', PList [PStr ''SANCTIONED''])])]\<rparr>,
         \<lparr>policy_id = ''p3'', policy_name = ''Size'', description = ''size'',
          rules = [(''organization_size'', PDict [])]\<rparr>,
         \<lparr>policy_id = ''p4'', policy_name = ''High ESG'', description = ''esg'',
          rules = [(''esg_score'', PDict [(''min'', PInt 90)])]\<rparr>],
      metadata = []\<rparr> \<and>
   credential_verified
     \<lparr>agent_id = ''c'', agent_name = ''C'', organization = ''OrgC'', vlei_credential = None,
      credential_verified = True, verification_details = None, trust_policies = [],
      metadata = []\<rparr> \<and>
   score (verify_trust ''2024-01-01T00:00:00''
     \<lparr>agent_id = ''a'', agent_name = ''A'', organization = ''OrgA'', vlei_credential = None,
      credential_verified = True, verification_details = None,
      trust_policies =
        [\<lparr>policy_id = ''p1'', policy_name = ''Basic ESG'', description = ''esg'',
          rules = [(''esg_score'', PDict [(''min'', PInt 60)])]\<rparr>,
         \<lparr>policy_id = ''p2'', policy_name = ''No sanctions'', description = ''jurisdiction'',
          rules = [(''jurisdiction'', PDict [(''blocked'', PList [PStr ''SANCTIONED''])])]\<rparr>,
         \<lparr>policy_id = ''p3'', policy_name = ''Size'', description = ''size'',
          rules = [(''organization_size'', PDict [])]\<rparr>,
         \<lparr>policy_id = ''p4'', policy_name = ''High ESG'', description = ''esg'',
          rules = [(''esg_score'', PDict [(''min'', PInt 90)])]\<rparr>],
      metadata = []\<rparr>
     \<lparr>agent_id = ''c'', agent_name = ''C'', organization = ''OrgC'', vlei_credential = None,
      credential_verified = True, verification_details = None, trust_policies = [],
      metadata = []\<rparr>) = 7 / 8 \<and>
   round_double (7 / 10) \<le> 7 / 8 \<and>
   \<not> allowed (verify_trust ''2024-01-01T00:00:00''
     \<lparr>agent_id = ''a'', agent_name = ''A'', organization = ''OrgA'', vlei_credential = None,
      credential_verified = True, verification_details = None,
      trust_policies =
        [\<lparr>policy_id = ''p1'', policy_name = ''Basic ESG'', description = ''esg'',
          rules = [(''esg_score'', PDict [(''min'', PInt 60)])]\<rparr>,
         \<lparr>policy_id = ''p2'', policy_name = ''No sanctions'', description = ''jurisdiction'',
          rules = [(''jurisdiction'', PDict [(''blocked'', PList [PStr ''SANCTIONED''])])]\<rparr>,
         \<lparr>policy_id = ''p3'', policy_name = ''Size'', description = ''size'',
          rules = [(''organization_size'', PDict [])]\<rparr>,
         \<lparr>policy_id = ''p4'', policy_name = ''High ESG'', description = ''esg'',
          rules = [(''esg_score'', PDict [(''min'', PInt 90)])]\<rparr>],
      metadata = []\<rparr>
     \<lparr>agent_id = ''c'', agent_name = ''C'', organization = ''OrgC'', vlei_credential = None,
      credential_verified = True, verification_details = None, trust_policies = [],
      metadata = []\<rparr>)"
proof -
  let ?s = "\<lparr>agent_id = ''a'', agent_name = ''A'', organization = ''OrgA'', vlei_credential = None,
      credential_verified = True, verification_details = None,
      trust_policies =
        [\<lparr>policy_id = ''p1'', policy_name = ''Basic ESG'', description = ''esg'',
          rules = [(''esg_score'', PDict [(''min'', PInt 60)])]\<rparr>,
         \<lparr>policy_id = ''p2'', policy_name = ''No sanctions'', description = ''jurisdiction'',
          rules = [(''jurisdiction'', PDict [(''blocked'', PList [PStr ''SANCTIONED''])])]\<rparr>,
         \<lparr>policy_id = ''p3'', policy_name = ''Size'', description = ''size'',
          rules = [(''organization_size'', PDict [])]\<rparr>,
         \<lparr>policy_id = ''p4'', policy_name = ''High ESG'', description = ''esg'',
          rules = [(''esg_score'', PDict [(''min'', PInt 90)])]\<rparr>],
      metadata = []\<rparr>"
  let ?t = "\<lparr>agent_id = ''c'', agent_name = ''C'', organization = ''OrgC'', vlei_credential = None,
      credential_verified = True, verification_details = None, trust_policies = [],
      metadata = []\<rparr>"
  have vs: "credential_verified ?s" and vt: "credential_verified ?t"
    by simp_all
  have sc: "score (verify_trust ''2024-01-01T00:00:00'' ?s ?t) = 7 / 8"
    by code_simp
  have fl: "policies_failed (verify_trust ''2024-01-01T00:00:00'' ?s ?t) = [''High ESG'']"
    by code_simp
  have th: "round_double (7 / 10) \<le> 7 / 8"
    by (simp add: threshold_value)
  from decision_threshold_and_veto [OF vs vt refl refl, of "''2024-01-01T00:00:00''"]
  have "allowed (verify_trust ''2024-01-01T00:00:00'' ?s ?t) \<longleftrightarrow>
          round_double (7 / 10) \<le> score (verify_trust ''2024-01-01T00:00:00'' ?s ?t) \<and>
          policies_failed (verify_trust ''2024-01-01T00:00:00'' ?s ?t) = []"
    by blast
  with fl have "\<not> allowed (verify_trust ''2024-01-01T00:00:00'' ?s ?t)"
    by simp
  with vs vt sc th show ?thesis
    by blast
qed

section \<open>The policies that are checked\<close>

text \<open>
  Claim C4, as stated: when both agents are verified and the source has no policy,
  \<^verbatim>\<open>verify_trust\<close> answers score 0.0 and \<^verbatim>\<open>allowed = False\<close>. A source without policies
  is checked against the default policies, and a target with the default attributes passes
  both of them: the score is 1 and the answer is \<^verbatim>\<open>allowed = True\<close>.
\<close>

theorem empty_policy_set_counterexample:
  "credential_verified
     \<lparr>agent_id = ''a'', agent_name = ''A'', organization = ''OrgA'', vlei_credential = None,
      credential_verified = True, verification_details = None, trust_policies = [],
      metadata = []\<rparr> \<and>
   credential_verified
     \<lparr>agent_id = ''b'', agent_name = ''B'', organization = ''OrgB'', vlei_credential = None,
      credential_verified = True, verification_details = None, trust_policies = [],
      metadata = []\<rparr> \<and>
   trust_policies
     \<lparr>agent_id = ''a'', agent_name = ''A'', organization = ''OrgA'', vlei_credential = None,
      credential_verified = True, verification_details = None, trust_policies = [],
      metadata = []\<rparr> = [] \<and>
   score (verify_trust ''2024-01-01T00:00:00''
     \<lparr>agent_id = ''a'', agent_name = ''A'', organization = ''OrgA'', vlei_credential = None,
      credential_verified = True, verification_details = None, trust_policies = [],
      metadata = []\<rparr>
     \<lparr>agent_id = ''b'', agent_name = ''B'', organization = ''OrgB'', vlei_credential = None,
      credential_verified = True, verification_details = None, trust_policies = [],
      metadata = []\<rparr>) = 1 \<and>
   allowed (verify_trust ''2024-01-01T00:00:00''
     \<lparr>agent_id = ''a'', agent_name = ''A'', organization = ''OrgA'', vlei_credential = None,
      credential_verified = True, verification_details = None, trust_policies = [],
      metadata = []\<rparr>
     \<lparr>agent_id = ''b'', agent_name = ''B'', organization = ''OrgB'', vlei_credential = None,
      credential_verified = True, verification_details = None, trust_policies = [],
      metadata = []\<rparr>)"
  by code_simp

text \<open>
  Claim C4, amended: when the source has no policy, \<^verbatim>\<open>verify_trust\<close> checks the default
  policies in their place and answers what it answers for a source that holds the default
  policies. The default policy set is not empty; the score 0 belongs to
  \<^verbatim>\<open>_calculate_trust_score\<close> on an empty list of policy results.
\<close>

theorem empty_policy_set_uses_defaults:
  "trust_policies source_agent = [] \<Longrightarrow>
   verify_trust now source_agent target_agent =
     verify_trust now (source_agent\<lparr>trust_policies := default_policies\<rparr>) target_agent \<and>
   default_policies \<noteq> [] \<and>
   calculate_trust_score [] = 0"
  by (simp add: verify_trust_def calculate_trust_score_def default_policies_def load_default_policies_def)

theorem empty_policy_set_uses_defaults_witness:
  "trust_policies
     \<lparr>agent_id = ''a'', agent_name = ''A'', organization = ''OrgA'', vlei_credential = None,
      credential_verified = True, verification_details = None, trust_policies = [],
      metadata = []\<rparr> = [] \<and>
   verify_trust ''2024-01-01T00:00:00''
     \<lparr>agent_id = ''a'', agent_name = ''A'', organization = ''OrgA'', vlei_credential = None,
      credential_verified = True, verification_details = None, trust_policies = [],
      metadata = []\<rparr>
     \<lparr>agent_id = ''b'', agent_name = ''B'', organization = ''OrgB'', vlei_credential = None,
      credential_verified = True, verification_details = None, trust_policies = [],
      metadata = []\<rparr>
   = verify_trust ''2024-01-01T00:00:00''
     \<lparr>agent_id = ''a'', agent_name = ''A'', organization = ''OrgA'', vlei_credential = None,
      credential_verified = True, verification_details = None, trust_policies = default_policies,
      metadata = []\<rparr>
     \<lparr>agent_id = ''b'', agent_name = ''B'', organization = ''OrgB'', vlei_credential = None,
      credential_verified = True, verification_details = None, trust_policies = [],
      metadata = []\<rparr>"
  using empty_policy_set_uses_defaults
    [of "\<lparr>agent_id = ''a'', agent_name = ''A'', organization = ''OrgA'', vlei_credential = None,
          credential_verified = True, verification_details = None, trust_policies = [],
          metadata = []\<rparr>"
        "''2024-01-01T00:00:00''"
        "\<lparr>agent_id = ''b'', agent_name = ''B'', organization = ''OrgB'', vlei_credential = None,
          credential_verified = True, verification_details = None, trust_policies = [],
          metadata = []\<rparr>"]
  by simp

section \<open>Determinism\<close>




section \<open>Precedence of the attribute sources\<close>

lemma dict_get_dict_set_PStr:
  "dict_get (dict_set d (PStr a) v) (PStr b) = (if a = b then Some v else dict_get d (PStr b))"
  by (induction d) auto

lemma dict_get_dict_copy: "dict_get (dict_copy kvs) (PStr b) = map_of kvs b"
  by (induction kvs) (auto simp add: dict_copy_def)

lemma dict_get_update_items:
  "dict_get (update_items d kvs) (PStr b) =
     (case map_of (rev kvs) b of Some v \<Rightarrow> Some v | None \<Rightarrow> dict_get d (PStr b))"
  unfolding update_items_def
proof (induction kvs arbitrary: d)
  case Nil
  show ?case by simp
next
  case (Cons kv kvs)
  show ?case
    by (simp add: Cons.IH dict_get_dict_set_PStr map_add_def split: option.split)
qed

lemma dict_get_add_default:
  "dict_get (add_default d kv) (PStr b) =
     (case dict_get d (PStr b) of
        Some v \<Rightarrow> Some v
      | None \<Rightarrow> if fst kv = b then Some (snd kv) else None)"
  by (auto simp add: add_default_def dict_get_dict_set_PStr split: option.split)

lemma dict_get_add_defaults:
  "dict_get (foldl add_default d ds) (PStr b) =
     (case dict_get d (PStr b) of Some v \<Rightarrow> Some v | None \<Rightarrow> map_of ds b)"
proof (induction ds arbitrary: d)
  case Nil
  show ?case by (simp split: option.split)
next
  case (Cons kv ds)
  show ?case
    by (simp add: Cons.IH dict_get_add_default split: option.split)
qed

lemma map_of_rev_distinct: "distinct (map fst kvs) \<Longrightarrow> map_of (rev kvs) = map_of kvs"
proof (induction kvs)
  case Nil
  show ?case by simp
next
  case (Cons kv kvs)
  then have "fst kv \<notin> dom (map_of kvs)"
    by (simp add: dom_map_of_conv_image_fst)
  then have "map_of kvs (fst kv) = None"
    by blast
  with Cons show ?case
    by (auto simp add: map_add_def fun_eq_iff split: option.split)
qed

lemma dict_set_key: "x \<in> set (dict_set d k v) \<Longrightarrow> fst x = k \<or> fst x \<in> fst ` set d"
proof (induction d)
  case Nil
  then show ?case by simp
next
  case (Cons kv d)
  obtain k' v' where kv: "kv = (k', v')" by (cases kv)
  show ?case
  proof (cases "py_eq k' k")
    case True
    with Cons.prems kv show ?thesis by force
  next
    case False
    with Cons.prems kv have "x = (k', v') \<or> x \<in> set (dict_set d k v)" by simp
    with Cons.IH kv show ?thesis by force
  qed
qed

lemma dict_set_keys: "fst ` set (dict_set d k v) \<subseteq> insert k (fst ` set d)"
  using dict_set_key by blast

lemma update_items_keys: "fst ` set d \<subseteq> range PStr \<Longrightarrow> fst ` set (update_items d kvs) \<subseteq> range PStr"
  unfolding update_items_def
proof (induction kvs arbitrary: d)
  case Nil
  then show ?case by simp
next
  case (Cons kv kvs)
  have "fst ` set (dict_set d (PStr (fst kv)) (snd kv)) \<subseteq> range PStr"
    using dict_set_keys [of d "PStr (fst kv)" "snd kv"] Cons.prems by blast
  then show ?case
    by (simp add: Cons.IH)
qed

lemma add_defaults_keys: "fst ` set d \<subseteq> range PStr \<Longrightarrow> fst ` set (foldl add_default d ds) \<subseteq> range PStr"
proof (induction ds arbitrary: d)
  case Nil
  then show ?case by simp
next
  case (Cons kv ds)
  have "fst ` set (add_default d kv) \<subseteq> range PStr"
    using dict_set_keys [of d "PStr (fst kv)" "snd kv"] Cons.prems
    by (auto simp add: add_default_def)
  then show ?case
    by (simp add: Cons.IH)
qed

lemma dict_copy_keys: "fst ` set (dict_copy kvs) \<subseteq> range PStr"
  by (auto simp add: dict_copy_def)

lemma extract_agent_data_merge:
  "extract_agent_data agent =
     and_then
       (dict_update
          (update_items (dict_copy (metadata agent))
             (case verification_details agent of None \<Rightarrow> [] | Some vd \<Rightarrow> vd))
          (case vlei_credential agent of None \<Rightarrow> PDict [] | Some cred \<Rightarrow> credential_subject cred))
       (\<lambda>agent_data. Inr (foldl add_default agent_data defaults))"
  by (simp add: extract_agent_data_def Let_def update_items_def dict_copy_def credential_subject_def
      split: option.split)

text \<open>
  Claim C8. Attribute resolution merges its sources so that later ones override earlier
  ones: the defaults, then the metadata, then the verification details, then the claims of
  the credential subject. For an agent whose credential subject is a dict (or that has
  none), resolution returns an attribute set with string keys in which every key has the
  value of the last source that defines it; a default is seen only under a key that no
  other source defines.
\<close>

theorem attribute_precedence:
  assumes "(case vlei_credential agent of None \<Rightarrow> PDict [] | Some cred \<Rightarrow> credential_subject cred)
             = PDict subject_claims"
    and "(case verification_details agent of None \<Rightarrow> [] | Some vd \<Rightarrow> vd) = details"
    and "distinct (map fst subject_claims)"
    and "distinct (map fst details)"
  shows "\<exists>agent_data.
           extract_agent_data agent = Inr agent_data \<and>
           fst ` set agent_data \<subseteq> range PStr \<and>
           (\<forall>key. dict_get agent_data (PStr key) =
              (map_of defaults ++ map_of (metadata agent) ++ map_of details ++ map_of subject_claims) key)"
proof -
  let ?merged = "update_items (update_items (dict_copy (metadata agent)) details) subject_claims"
  have e: "extract_agent_data agent = Inr (foldl add_default ?merged defaults)"
    using assms(1,2) by (simp add: extract_agent_data_merge)
  have k: "fst ` set (foldl add_default ?merged defaults) \<subseteq> range PStr"
    by (intro add_defaults_keys update_items_keys dict_copy_keys)
  have v: "dict_get (foldl add_default ?merged defaults) (PStr key) =
              (map_of defaults ++ map_of (metadata agent) ++ map_of details ++ map_of subject_claims) key"
    for key
    using assms(3,4)
    by (simp add: dict_get_add_defaults dict_get_update_items dict_get_dict_copy
        map_of_rev_distinct map_add_def split: option.split)
  from e k v show ?thesis by blast
qed

theorem attribute_precedence_witness:
  "(\<exists>agent_data.
      extract_agent_data
        \<lparr>agent_id = ''b'', agent_name = ''B'', organization = ''OrgB'',
         vlei_credential =
           Some [(''issuer'', PStr ''did:keri:gleif''),
                 (''credentialSubject'',
                  PDict [(''jurisdiction'', PStr ''DE''), (''sector'', PStr ''finance'')])],
         credential_verified = True,
         verification_details = Some [(''jurisdiction'', PStr ''UK''), (''mock'', PBool True)],
         trust_policies = [],
         metadata = [(''esg_score'', PInt 45), (''jurisdiction'', PStr ''US'')]\<rparr>
        = Inr agent_data \<and>
      dict_get agent_data (PStr ''esg_score'') = Some (PInt 45) \<and>
      dict_get agent_data (PStr ''jurisdiction'') = Some (PStr ''DE'') \<and>
      dict_get agent_data (PStr ''mock'') = Some (PBool True) \<and>
      dict_get agent_data (PStr ''organization_size'') = Some (PStr ''medium''))"
proof -
  let ?agent = "\<lparr>agent_id = ''b'', agent_name = ''B'', organization = ''OrgB'',
         vlei_credential =
           Some [(''issuer'', PStr ''did:keri:gleif''),
                 (''credentialSubject'',
                  PDict [(''jurisdiction'', PStr ''DE''), (''sector'', PStr ''finance'')])],
         credential_verified = True,
         verification_details = Some [(''jurisdiction'', PStr ''UK''), (''mock'', PBool True)],
         trust_policies = [],
         metadata = [(''esg_score'', PInt 45), (''jurisdiction'', PStr ''US'')]\<rparr>"
  have s: "(case vlei_credential ?agent of None \<Rightarrow> PDict [] | Some cred \<Rightarrow> credential_subject cred)
             = PDict [(''jurisdiction'', PStr ''DE''), (''sector'', PStr ''finance'')]"
    by (simp add: credential_subject_def)
  have d: "(case verification_details ?agent of None \<Rightarrow> [] | Some vd \<Rightarrow> vd)
             = [(''jurisdiction'', PStr ''UK''), (''mock'', PBool True)]"
    by simp
  have ds: "distinct (map fst [(''jurisdiction'', PStr ''DE''), (''sector'', PStr ''finance'')])"
    by simp
  have dd: "distinct (map fst [(''jurisdiction'', PStr ''UK''), (''mock'', PBool True)])"
    by simp
  obtain agent_data where
    e: "extract_agent_data ?agent = Inr agent_data" and
    v: "\<And>key. dict_get agent_data (PStr key) =
          (map_of defaults ++ map_of (metadata ?agent) ++ map_of [(''jurisdiction'', PStr ''UK''), (''mock'', PBool True)]
             ++ map_of [(''jurisdiction'', PStr ''DE''), (''sector'', PStr ''finance'')]) key"
    using attribute_precedence [OF s d ds dd] by blast
  have "dict_get agent_data (PStr ''esg_score'') = Some (PInt 45)"
       "dict_get agent_data (PStr ''jurisdiction'') = Some (PStr ''DE'')"
       "dict_get agent_data (PStr ''mock'') = Some (PBool True)"
       "dict_get agent_data (PStr ''organization_size'') = Some (PStr ''medium'')"
    by (simp_all add: v map_add_def defaults_def)
  with e show ?thesis by blast
qed

section \<open>Scores as exact numbers\<close>

text \<open>
  The policy scores of the source are floats that the model keeps exact. A policy whose
  rules have distinct names, as the keys of a dict have, has at most four failing rules,
  so its score is one of 1, 1/2, 1/4, 1/8 and 1/16, and all of them are doubles. For
  verified agents the threshold never decides alone: the answer is \<^verbatim>\<open>allowed\<close> exactly
  when no policy has failed, and then the trust score is 1.
\<close>

lemma failed_rule_is_built_in:
  "\<not> rr_passed (evaluate_rule n c agent_data) \<Longrightarrow>
   n \<in> {''esg_score'', ''jurisdiction'', ''organization_size'', ''sector''}"
  by (auto simp add: evaluate_rule_def split: if_splits)

lemma failed_rules_at_most_four:
  assumes "distinct (map fst rs)"
  shows "length (filter (\<lambda>(n, c). \<not> rr_passed (evaluate_rule n c agent_data)) rs) \<le> 4"
proof -
  let ?bad = "filter (\<lambda>(n, c). \<not> rr_passed (evaluate_rule n c agent_data)) rs"
  have d: "distinct (map fst ?bad)"
    using assms by (rule distinct_map_filter)
  have "set (map fst ?bad) \<subseteq> {''esg_score'', ''jurisdiction'', ''organization_size'', ''sector''}"
    by (auto dest!: failed_rule_is_built_in)
  then have "card (set (map fst ?bad)) \<le> card {''esg_score'', ''jurisdiction'', ''organization_size'', ''sector''}"
    by (intro card_mono) simp_all
  also have "\<dots> = 4" by simp
  finally have "card (set (map fst ?bad)) \<le> 4" .
  moreover have "card (set (map fst ?bad)) = length ?bad"
    using d distinct_card by fastforce
  ultimately show ?thesis by simp
qed

lemma passed_policy_score:
  "pr_passed (evaluate_policy policy target_agent) \<Longrightarrow> pr_score (evaluate_policy policy target_agent) = 1"
proof (cases "extract_agent_data target_agent")
  case (Inl e)
  assume "pr_passed (evaluate_policy policy target_agent)"
  with Inl show ?thesis by (simp add: evaluate_policy_unresolved)
next
  case (Inr agent_data)
  assume "pr_passed (evaluate_policy policy target_agent)"
  then have "list_all (\<lambda>(n, c). rr_passed (evaluate_rule n c agent_data)) (rules policy)"
    by (simp add: evaluate_policy_resolved [OF Inr])
  then have "filter (\<lambda>(n, c). \<not> rr_passed (evaluate_rule n c agent_data)) (rules policy) = []"
    by (auto simp add: list_all_iff filter_empty_conv)
  then show ?thesis
    by (simp add: evaluate_policy_resolved [OF Inr])
qed

lemma trust_score_all_passed:
  assumes "ps \<noteq> []" and "\<forall>p \<in> set ps. pr_passed (evaluate_policy p target_agent)"
  shows "calculate_trust_score (map (\<lambda>p. evaluate_policy p target_agent) ps) = 1"
proof -
  have "map pr_score (map (\<lambda>p. evaluate_policy p target_agent) ps) = replicate (length ps) 1"
    using assms(2) by (induction ps) (simp_all add: passed_policy_score)
  then have "sum_list (map pr_score (map (\<lambda>p. evaluate_policy p target_agent) ps)) = of_nat (length ps)"
    by (simp add: sum_list_replicate)
  with assms(1) show ?thesis
    by (simp add: calculate_trust_score_def round_double_one)
qed

lemma allowed_iff_no_failed_policy:
  assumes "credential_verified source_agent" "credential_verified target_agent"
  shows "allowed (verify_trust now source_agent target_agent) \<longleftrightarrow>
         policies_failed (verify_trust now source_agent target_agent) = []"
proof -
  define ps where "ps = (if trust_policies source_agent \<noteq> [] then trust_policies source_agent else default_policies)"
  have ne: "ps \<noteq> []"
    by (simp add: ps_def default_policies_def load_default_policies_def)
  have th: "round_double (7 / 10) \<le> 1"
    by (simp add: threshold_value)
  note v = verify_trust_verified [OF assms ps_def refl refl, of now]
  show ?thesis
  proof (cases "\<forall>p \<in> set ps. pr_passed (evaluate_policy p target_agent)")
    case True
    then have "filter (\<lambda>p. \<not> pr_passed (evaluate_policy p target_agent)) ps = []"
      by (simp add: filter_empty_conv)
    with trust_score_all_passed [OF ne True] th show ?thesis
      by (simp add: v)
  next
    case False
    then have "filter (\<lambda>p. \<not> pr_passed (evaluate_policy p target_agent)) ps \<noteq> []"
      by (simp add: filter_empty_conv)
    then show ?thesis
      by (simp add: v)
  qed
qed

end
